theory Spec2Isabelle
  imports Main
begin

section \<open>Values, columns, tables and reports\<close>

text \<open>
  The validation layer of \<^verbatim>\<open>pandasio/validation/errors.py\<close> works on pandas
  objects. A cell holds a Python scalar: a missing value (\<^verbatim>\<open>None\<close>/\<^verbatim>\<open>NaN\<close>), an
  integer, a text or a boolean. Floating-point cells are not modelled, so a column is
  taken as pandas holds it with dtype \<^verbatim>\<open>object\<close>, \<^verbatim>\<open>int64\<close> or \<^verbatim>\<open>bool\<close>; a column of integers
  that pandas has turned into floats because of a missing value is outside the model.
  Texts are lists of characters, one per Python character; only ASCII text is
  represented.

  A column (\<^verbatim>\<open>pd.Series\<close>) is the ordered list of its rows, each an index label with
  its value; labels need not be distinct. A table (\<^verbatim>\<open>pd.DataFrame\<close>) has its column
  names and its ordered rows, each an index label with the cell of every column.
\<close>

datatype scalar = Null | Num int | Str string | Bool bool

type_synonym 'i series = "('i \<times> scalar) list"

record 'i dataframe =
  columns :: "string list"
  rows :: "('i \<times> (string \<Rightarrow> scalar)) list"

datatype 'i pandas = Series "'i series" | DataFrame "'i dataframe"

text \<open>Exceptions: the two assertions and the dispatch failure of the source, and the
  exceptions pandas and Python raise underneath it.\<close>

datatype exn =
    AssertionError string
  | NotImplementedError string
  | TypeError
  | AttributeError
  | KeyError
  | ValueError
  | IndexingError

text \<open>A report is the dictionary built by \<^verbatim>\<open>form_response\<close>: the keys \<^verbatim>\<open>reason\<close> and
  \<^verbatim>\<open>indexes\<close>, then the keyword arguments in the order given.\<close>

datatype kwarg = IntArg int | StrArg string | ListArg "string list"

record 'i report =
  reason :: "string option"
  indexes :: "'i list"
  extras :: "(string \<times> kwarg) list"

definition bind_exn :: "exn + 'a \<Rightarrow> ('a \<Rightarrow> exn + 'b) \<Rightarrow> exn + 'b" where
  "bind_exn r f = (case r of Inl e \<Rightarrow> Inl e | Inr x \<Rightarrow> f x)"

section \<open>The Error classes\<close>

text \<open>The abstract base \<^verbatim>\<open>Error\<close> and the thirteen classes derived from it. \<^verbatim>\<open>CODE\<close> is
  the class attribute, \<^verbatim>\<open>None\<close> in the base.\<close>

datatype Error_class =
    Error
  | NonNumericValueError
  | FieldRequiredError
  | NullNotAllowedError
  | MinValueError
  | MaxValueError
  | MinLengthError
  | MaxLengthError
  | NonUniqueTogetherError
  | IncorrectDateFormatError
  | IncorrectDateTimeFormatError
  | ImageFormatNotSupportedError
  | IdentifierNotFoundError
  | BlankNotAllowed

fun CODE :: "Error_class \<Rightarrow> string option" where
  "CODE Error = None"
| "CODE NonNumericValueError = Some ''NON_NUMERIC_VALUE''"
| "CODE FieldRequiredError = Some ''FIELD_REQUIRED''"
| "CODE NullNotAllowedError = Some ''NULL_NOT_ALLOWED''"
| "CODE MinValueError = Some ''MIN_VALUE''"
| "CODE MaxValueError = Some ''MAX_VALUE''"
| "CODE MinLengthError = Some ''MIN_LENGTH_VALUE''"
| "CODE MaxLengthError = Some ''MAX_LENGTH_VALUE''"
| "CODE NonUniqueTogetherError = Some ''NON_UNIQUE_TOGETHER''"
| "CODE IncorrectDateFormatError = Some ''INCORRECT_DATE_FORMAT''"
| "CODE IncorrectDateTimeFormatError = Some ''INCORRECT_DATETIME_FORMAT''"
| "CODE ImageFormatNotSupportedError = Some ''IMAGE_FORMAT_NOT_SUPPORTED''"
| "CODE IdentifierNotFoundError = Some ''IDENTIFIER_NOT_FOUND''"
| "CODE BlankNotAllowed = Some ''BLANK_NOT_ALLOWED''"

definition shipped_classes :: "Error_class list" where
  "shipped_classes =
     [NonNumericValueError, FieldRequiredError, NullNotAllowedError, MinValueError,
      MaxValueError, MinLengthError, MaxLengthError, NonUniqueTogetherError,
      IncorrectDateFormatError, IncorrectDateTimeFormatError,
      ImageFormatNotSupportedError, IdentifierNotFoundError, BlankNotAllowed]"

text \<open>\<^verbatim>\<open>str.isupper\<close>: at least one cased character, and no lowercase one.\<close>

definition ascii_uppercase :: string where
  "ascii_uppercase = ''ABCDEFGHIJKLMNOPQRSTUVWXYZ''"

definition ascii_lowercase :: string where
  "ascii_lowercase = ''abcdefghijklmnopqrstuvwxyz''"

definition isupper :: "string \<Rightarrow> bool" where
  "isupper s \<longleftrightarrow>
     list_ex (\<lambda>c. c \<in> set ascii_uppercase) s \<and>
     \<not> list_ex (\<lambda>c. c \<in> set ascii_lowercase) s"

text \<open>\<^verbatim>\<open>Error.__post_init__\<close> reads \<^verbatim>\<open>self.CODE\<close> only; it is run by the generated
  \<^verbatim>\<open>__init__\<close> of every dataclass of the family.\<close>

definition post_init :: "string option \<Rightarrow> exn + unit" where
  "post_init code =
     (case code of
        None \<Rightarrow> Inl (AssertionError ''`CODE` cannot be None.'')
      | Some c \<Rightarrow>
          if isupper c then Inr ()
          else Inl (AssertionError ''The `CODE` should be uppercase.''))"

definition init :: "Error_class \<Rightarrow> exn + Error_class" where
  "init cls = bind_exn (post_init (CODE cls)) (\<lambda>_. Inr cls)"

text \<open>\<^verbatim>\<open>form_response\<close> lists the index labels of the selection it is given, or nothing
  when it is given \<^verbatim>\<open>None\<close>. It reads the labels only, so the same definition serves
  a selection of a column and a selection of a table.\<close>

definition form_response ::
  "Error_class \<Rightarrow> ('i \<times> 'a) list option \<Rightarrow> (string \<times> kwarg) list \<Rightarrow> 'i report" where
  "form_response self s kwargs =
     \<lparr> reason = CODE self,
       indexes = (case s of Some sel \<Rightarrow> map fst sel | None \<Rightarrow> []),
       extras = kwargs \<rparr>"

section \<open>Operations on a column\<close>

text \<open>\<^verbatim>\<open>s.loc[mask]\<close> and \<^verbatim>\<open>s[mask]\<close> with a boolean mask computed from \<^verbatim>\<open>s\<close> itself keep
  the rows whose mask entry is true, in row order.\<close>

definition loc :: "('i \<times> 'a) list \<Rightarrow> bool list \<Rightarrow> ('i \<times> 'a) list" where
  "loc s keep = map fst (filter snd (zip s keep))"

definition series_apply :: "(scalar \<Rightarrow> 'b) \<Rightarrow> 'i series \<Rightarrow> 'b list" where
  "series_apply f s = map (\<lambda>(i, v). f v) s"

definition isnull :: "'i series \<Rightarrow> bool list" where
  "isnull s = series_apply (\<lambda>v. v = Null) s"

definition dropna :: "'i series \<Rightarrow> 'i series" where
  "dropna s = filter (\<lambda>(i, v). v \<noteq> Null) s"

text \<open>An elementwise operation that raises on one value raises for the whole column.\<close>

fun traverse :: "('a \<Rightarrow> exn + 'b) \<Rightarrow> 'a list \<Rightarrow> exn + 'b list" where
  "traverse f [] = Inr []"
| "traverse f (x # xs) =
     (case f x of
        Inl e \<Rightarrow> Inl e
      | Inr y \<Rightarrow> (case traverse f xs of Inl e \<Rightarrow> Inl e | Inr ys \<Rightarrow> Inr (y # ys)))"

text \<open>\<^verbatim>\<open>s < limit\<close> and \<^verbatim>\<open>s > limit\<close> against an integer: a missing value compares false,
  a boolean compares as 0 or 1, and a text raises \<^verbatim>\<open>TypeError\<close>.\<close>

fun as_int :: "scalar \<Rightarrow> exn + int option" where
  "as_int Null = Inr None"
| "as_int (Num n) = Inr (Some n)"
| "as_int (Bool b) = Inr (Some (if b then 1 else 0))"
| "as_int (Str t) = Inl TypeError"

definition lt_scalar :: "int \<Rightarrow> scalar \<Rightarrow> exn + bool" where
  "lt_scalar limit v =
     bind_exn (as_int v) (\<lambda>x. Inr (case x of None \<Rightarrow> False | Some n \<Rightarrow> n < limit))"

definition gt_scalar :: "int \<Rightarrow> scalar \<Rightarrow> exn + bool" where
  "gt_scalar limit v =
     bind_exn (as_int v) (\<lambda>x. Inr (case x of None \<Rightarrow> False | Some n \<Rightarrow> n > limit))"

definition series_lt :: "'i series \<Rightarrow> int \<Rightarrow> exn + bool list" where
  "series_lt s limit = traverse (lt_scalar limit) (map snd s)"

definition series_gt :: "'i series \<Rightarrow> int \<Rightarrow> exn + bool list" where
  "series_gt s limit = traverse (gt_scalar limit) (map snd s)"

text \<open>The \<^verbatim>\<open>.str\<close> accessor is refused with \<^verbatim>\<open>AttributeError\<close> unless the kind pandas
  infers from the non-missing values is one of string, empty, mixed and
  mixed-integer. \<^verbatim>\<open>.str.len()\<close> then gives the length of a text and a missing value
  for anything else.\<close>

datatype inferred = Inferred_empty | Inferred_integer | Inferred_boolean
  | Inferred_string | Inferred_mixed_integer | Inferred_mixed

fun is_Num :: "scalar \<Rightarrow> bool" where
  "is_Num (Num n) = True"
| "is_Num v = False"

fun is_Str :: "scalar \<Rightarrow> bool" where
  "is_Str (Str t) = True"
| "is_Str v = False"

fun is_Bool :: "scalar \<Rightarrow> bool" where
  "is_Bool (Bool b) = True"
| "is_Bool v = False"

definition infer_dtype :: "scalar list \<Rightarrow> inferred" where
  "infer_dtype vs =
     (let xs = filter (\<lambda>v. v \<noteq> Null) vs in
      if xs = [] then Inferred_empty
      else if list_all is_Num xs then Inferred_integer
      else if list_all is_Bool xs then Inferred_boolean
      else if list_all is_Str xs then Inferred_string
      else if list_ex is_Num xs then Inferred_mixed_integer
      else Inferred_mixed)"

fun str_len_scalar :: "scalar \<Rightarrow> int option" where
  "str_len_scalar (Str t) = Some (int (length t))"
| "str_len_scalar v = None"

definition str_len :: "'i series \<Rightarrow> exn + int option list" where
  "str_len s =
     (if infer_dtype (map snd s) \<in> {Inferred_integer, Inferred_boolean}
      then Inl AttributeError
      else Inr (series_apply str_len_scalar s))"

definition opt_lt :: "int \<Rightarrow> int option \<Rightarrow> bool" where
  "opt_lt limit x = (case x of None \<Rightarrow> False | Some n \<Rightarrow> n < limit)"

definition opt_gt :: "int \<Rightarrow> int option \<Rightarrow> bool" where
  "opt_gt limit x = (case x of None \<Rightarrow> False | Some n \<Rightarrow> n > limit)"

text \<open>\<^verbatim>\<open>str(x)\<close> of a cell, \<^verbatim>\<open>lstrip("-")\<close>, which removes every leading minus sign, and
  \<^verbatim>\<open>isnumeric\<close>, true of a non-empty run of digits.\<close>

definition digit_char :: "nat \<Rightarrow> char" where
  "digit_char d = ''0123456789'' ! (d mod 10)"

fun str_nat :: "nat \<Rightarrow> string" where
  "str_nat n = (if n < 10 then [digit_char n] else str_nat (n div 10) @ [digit_char n])"

declare str_nat.simps [simp del]

fun py_str :: "scalar \<Rightarrow> string" where
  "py_str Null = ''None''"
| "py_str (Num n) = (if n < 0 then CHR ''-'' # str_nat (nat (- n)) else str_nat (nat n))"
| "py_str (Str t) = t"
| "py_str (Bool b) = (if b then ''True'' else ''False'')"

definition lstrip_minus :: "string \<Rightarrow> string" where
  "lstrip_minus t = dropWhile (\<lambda>c. c = CHR ''-'') t"

definition isnumeric :: "string \<Rightarrow> bool" where
  "isnumeric t \<longleftrightarrow> t \<noteq> [] \<and> list_all (\<lambda>c. c \<in> set ''0123456789'') t"

section \<open>The detection rules\<close>

text \<open>Every \<^verbatim>\<open>to_dict\<close> but that of \<^verbatim>\<open>FieldRequiredError\<close> and \<^verbatim>\<open>IdentifierNotFoundError\<close>
  starts by reading an attribute of its argument, which raises \<^verbatim>\<open>AttributeError\<close> on
  \<^verbatim>\<open>None\<close>.\<close>

definition NonNumericValueError_to_dict :: "'i series option \<Rightarrow> exn + 'i report" where
  "NonNumericValueError_to_dict s =
     (case s of
        None \<Rightarrow> Inl AttributeError
      | Some c \<Rightarrow>
          Inr (form_response NonNumericValueError
                 (Some (dropna (loc c (series_apply (\<lambda>x. \<not> isnumeric (lstrip_minus (py_str x))) c))))
                 []))"

definition FieldRequiredError_to_dict :: "'i series option \<Rightarrow> exn + 'i report" where
  "FieldRequiredError_to_dict s =
     Inr (form_response FieldRequiredError (None :: 'i series option) [])"

definition NullNotAllowedError_to_dict :: "'i series option \<Rightarrow> exn + 'i report" where
  "NullNotAllowedError_to_dict s =
     (case s of
        None \<Rightarrow> Inl AttributeError
      | Some c \<Rightarrow> Inr (form_response NullNotAllowedError (Some (loc c (isnull c))) []))"



text \<open>The date rule. \<^verbatim>\<open>pd.to_datetime(..., errors="coerce")\<close> belongs to pandas and is a
  parameter: it gives the date a value coerces to under the format, or \<^verbatim>\<open>NaT\<close>
  (here \<^verbatim>\<open>None\<close>). The method is inherited by \<^verbatim>\<open>IncorrectDateTimeFormatError\<close>, so it
  takes the class of its receiver.\<close>

definition IncorrectDateFormatError_to_dict ::
  "(string \<Rightarrow> scalar \<Rightarrow> 'd option) \<Rightarrow> Error_class \<Rightarrow> string \<Rightarrow> 'i series option
     \<Rightarrow> exn + 'i report" where
  "IncorrectDateFormatError_to_dict to_datetime self format s =
     (case s of
        None \<Rightarrow> Inl AttributeError
      | Some c \<Rightarrow>
          (let dates = map (\<lambda>(i, v). (i, to_datetime format v)) c
           in Inr (form_response self
                     (Some (loc dates (map (\<lambda>(i, x). x = None) dates)))
                     [(''format'', StrArg format)])))"

definition IncorrectDateTimeFormatError_to_dict ::
  "(string \<Rightarrow> scalar \<Rightarrow> 'd option) \<Rightarrow> string \<Rightarrow> 'i series option \<Rightarrow> exn + 'i report" where
  "IncorrectDateTimeFormatError_to_dict to_datetime format s =
     IncorrectDateFormatError_to_dict to_datetime IncorrectDateTimeFormatError format s"

text \<open>The four limit rules. They are also reached through \<^verbatim>\<open>log_validator_error\<close>, whose
  argument may be a table: there the comparison is made cell by cell and \<^verbatim>\<open>.loc\<close> then
  refuses the two-dimensional mask with \<^verbatim>\<open>ValueError\<close>, and a table has no \<^verbatim>\<open>.str\<close>
  accessor.\<close>

definition frame_cells :: "'i dataframe \<Rightarrow> scalar list" where
  "frame_cells t = concat (map (\<lambda>(i, r). map r (columns t)) (rows t))"

definition MinValueError_to_dict :: "int \<Rightarrow> 'i pandas option \<Rightarrow> exn + 'i report" where
  "MinValueError_to_dict min_value s =
     (case s of
        None \<Rightarrow> Inl AttributeError
      | Some (Series c) \<Rightarrow>
          bind_exn (series_lt c min_value)
            (\<lambda>keep. Inr (form_response MinValueError (Some (loc c keep))
                            [(''limit_value'', IntArg min_value)]))
      | Some (DataFrame t) \<Rightarrow>
          bind_exn (traverse (lt_scalar min_value) (frame_cells t)) (\<lambda>keep. Inl ValueError))"

definition MaxValueError_to_dict :: "int \<Rightarrow> 'i pandas option \<Rightarrow> exn + 'i report" where
  "MaxValueError_to_dict max_value s =
     (case s of
        None \<Rightarrow> Inl AttributeError
      | Some (Series c) \<Rightarrow>
          bind_exn (series_gt c max_value)
            (\<lambda>keep. Inr (form_response MaxValueError (Some (loc c keep))
                            [(''limit_value'', IntArg max_value)]))
      | Some (DataFrame t) \<Rightarrow>
          bind_exn (traverse (gt_scalar max_value) (frame_cells t)) (\<lambda>keep. Inl ValueError))"

definition MinLengthError_to_dict :: "int \<Rightarrow> 'i pandas option \<Rightarrow> exn + 'i report" where
  "MinLengthError_to_dict min_value s =
     (case s of
        None \<Rightarrow> Inl AttributeError
      | Some (Series c) \<Rightarrow>
          bind_exn (str_len c)
            (\<lambda>lens. Inr (form_response MinLengthError
                            (Some (loc c (map (opt_lt min_value) lens)))
                            [(''limit_value'', IntArg min_value)]))
      | Some (DataFrame t) \<Rightarrow> Inl AttributeError)"

definition MaxLengthError_to_dict :: "int \<Rightarrow> 'i pandas option \<Rightarrow> exn + 'i report" where
  "MaxLengthError_to_dict max_value s =
     (case s of
        None \<Rightarrow> Inl AttributeError
      | Some (Series c) \<Rightarrow>
          bind_exn (str_len c)
            (\<lambda>lens. Inr (form_response MaxLengthError
                            (Some (loc c (map (opt_gt max_value) lens)))
                            [(''limit_value'', IntArg max_value)]))
      | Some (DataFrame t) \<Rightarrow> Inl AttributeError)"

section \<open>Duplicated rows of a table\<close>

text \<open>\<^verbatim>\<open>DataFrame.duplicated(subset=...)\<close> with the default \<^verbatim>\<open>keep="first"\<close> walks the rows
  in order and flags a row whose cells in the columns of \<^verbatim>\<open>subset\<close> have been seen
  before. Cells are compared as the hash table of pandas compares Python objects: a
  boolean equals the integer 0 or 1, and missing values equal each other. An empty
  table gives an empty mask before \<^verbatim>\<open>subset\<close> is looked at; a name of \<^verbatim>\<open>subset\<close> that is
  no column raises \<^verbatim>\<open>KeyError\<close>; an empty \<^verbatim>\<open>subset\<close> raises \<^verbatim>\<open>ValueError\<close>.\<close>

fun hash_key :: "scalar \<Rightarrow> scalar" where
  "hash_key (Bool b) = Num (if b then 1 else 0)"
| "hash_key v = v"

fun duplicated :: "'k list \<Rightarrow> 'k list \<Rightarrow> bool list" where
  "duplicated seen [] = []"
| "duplicated seen (k # ks) = (k \<in> set seen) # duplicated (k # seen) ks"

definition row_key :: "string list \<Rightarrow> string list \<Rightarrow> (string \<Rightarrow> scalar) \<Rightarrow> scalar list" where
  "row_key cols sub r = map (\<lambda>f. hash_key (r f)) (filter (\<lambda>f. f \<in> set sub) cols)"

definition DataFrame_duplicated :: "string list \<Rightarrow> 'i dataframe \<Rightarrow> exn + bool list" where
  "DataFrame_duplicated sub t =
     (if rows t = [] \<or> columns t = [] then Inr []
      else if \<not> list_all (\<lambda>f. f \<in> set (columns t)) sub then Inl KeyError
      else if sub = [] then Inl ValueError
      else Inr (duplicated [] (map (\<lambda>(i, r). row_key (columns t) sub r) (rows t))))"

text \<open>\<^verbatim>\<open>s[mask]\<close> on a table: a mask that does not cover the rows cannot be aligned.\<close>

definition getitem ::
  "'i dataframe \<Rightarrow> bool list \<Rightarrow> exn + ('i \<times> (string \<Rightarrow> scalar)) list" where
  "getitem t keep =
     (if length keep \<noteq> length (rows t) then Inl IndexingError else Inr (loc (rows t) keep))"

definition NonUniqueTogetherError_to_dict ::
  "string list \<Rightarrow> 'i pandas option \<Rightarrow> exn + 'i report" where
  "NonUniqueTogetherError_to_dict unique_together_fields s =
     (case s of
        None \<Rightarrow> Inl AttributeError
      | Some (Series c) \<Rightarrow> Inl TypeError
      | Some (DataFrame t) \<Rightarrow>
          bind_exn (DataFrame_duplicated unique_together_fields t)
            (\<lambda>keep. bind_exn (getitem t keep)
               (\<lambda>sel. Inr (form_response NonUniqueTogetherError (Some sel)
                              [(''unique_together_fields'', ListArg unique_together_fields)]))))"

section \<open>The accumulator\<close>

record 'i FieldValidationErrorManager =
  errors :: "'i report list"

text \<open>\<^verbatim>\<open>log_error\<close> calls the \<^verbatim>\<open>to_dict\<close> of whatever error object it is given; the object
  is represented by that bound method. An exception leaves the accumulator as it
  was.\<close>

definition log_error ::
  "('s \<Rightarrow> exn + 'i report) \<Rightarrow> 's \<Rightarrow> 'i FieldValidationErrorManager
     \<Rightarrow> exn + 'i FieldValidationErrorManager" where
  "log_error to_dict s self =
     bind_exn (to_dict s) (\<lambda>r. Inr (self\<lparr>errors := errors self @ [r]\<rparr>))"

text \<open>A sequence of calls on one accumulator; it stops at the first exception and
  keeps what was recorded until then.\<close>

fun log_errors ::
  "(('s \<Rightarrow> exn + 'i report) \<times> 's) list \<Rightarrow> 'i FieldValidationErrorManager
     \<Rightarrow> exn option \<times> 'i FieldValidationErrorManager" where
  "log_errors [] self = (None, self)"
| "log_errors ((to_dict, s) # calls) self =
     (case log_error to_dict s self of
        Inl e \<Rightarrow> (Some e, self)
      | Inr self' \<Rightarrow> log_errors calls self')"

text \<open>Modelled from the spec: the constraint descriptors of
  \<^verbatim>\<open>pandasio.validation.validators\<close>, a module that is not among the sources. The spec
  names five kinds, each with a \<^verbatim>\<open>limit_value\<close> (a number, or the list of fields that
  must be jointly unique); any other descriptor is given by its class name. No kind
  is a subclass of another, so the order of the \<^verbatim>\<open>isinstance\<close> tests does not matter.\<close>

datatype validator =
    MinValueValidator int
  | MaxValueValidator int
  | MinLengthValidator int
  | MaxLengthValidator int
  | UniqueTogetherValidator "string list"
  | OtherValidator string

definition log_validator_error ::
  "validator \<Rightarrow> 'i pandas \<Rightarrow> 'i FieldValidationErrorManager
     \<Rightarrow> exn + 'i FieldValidationErrorManager" where
  "log_validator_error v s self =
     bind_exn
       (case v of
          MinValueValidator limit_value \<Rightarrow>
            bind_exn (init MinValueError) (\<lambda>_. MinValueError_to_dict limit_value (Some s))
        | MaxValueValidator limit_value \<Rightarrow>
            bind_exn (init MaxValueError) (\<lambda>_. MaxValueError_to_dict limit_value (Some s))
        | MinLengthValidator limit_value \<Rightarrow>
            bind_exn (init MinLengthError) (\<lambda>_. MinLengthError_to_dict limit_value (Some s))
        | MaxLengthValidator limit_value \<Rightarrow>
            bind_exn (init MaxLengthError) (\<lambda>_. MaxLengthError_to_dict limit_value (Some s))
        | UniqueTogetherValidator limit_value \<Rightarrow>
            bind_exn (init NonUniqueTogetherError)
              (\<lambda>_. NonUniqueTogetherError_to_dict limit_value (Some s))
        | OtherValidator name \<Rightarrow>
            Inl (NotImplementedError
                   (''Support for `'' @ name @ ''` validator not implemented yet.'')))
       (\<lambda>result. Inr (self\<lparr>errors := errors self @ [result]\<rparr>))"

section \<open>The rules as the specification words them\<close>




text \<open>The specification's rule for \<^verbatim>\<open>NON_UNIQUE_TOGETHER\<close>: the positions of the rows that
  equal an earlier row on every listed field. Two cells are equal as Python values
  are, with missing values equal to each other.\<close>

fun py_eq :: "scalar \<Rightarrow> scalar \<Rightarrow> bool" where
  "py_eq Null Null = True"
| "py_eq (Num a) (Num b) = (a = b)"
| "py_eq (Str a) (Str b) = (a = b)"
| "py_eq (Bool a) (Bool b) = (a = b)"
| "py_eq (Num a) (Bool b) = (a = (if b then 1 else 0))"
| "py_eq (Bool a) (Num b) = (b = (if a then 1 else 0))"
| "py_eq v w = False"

definition same_on :: "string list \<Rightarrow> (string \<Rightarrow> scalar) \<Rightarrow> (string \<Rightarrow> scalar) \<Rightarrow> bool" where
  "same_on flds r r' \<longleftrightarrow> list_all (\<lambda>f. py_eq (r f) (r' f)) flds"

definition spec_duplicate_positions :: "string list \<Rightarrow> 'i dataframe \<Rightarrow> nat list" where
  "spec_duplicate_positions flds t =
     filter (\<lambda>k. list_ex (\<lambda>j. same_on flds (snd (rows t ! j)) (snd (rows t ! k))) [0..<k])
       [0..<length (rows t)]"

text \<open>The specification's limit rules: \<^verbatim>\<open>c[i] < min_value\<close> and \<^verbatim>\<open>c[i] > max_value\<close>
  for a number (a boolean counts as 0 or 1), and the length of a text against the
  limit. A value for which the comparison is undefined satisfies none of them.\<close>

fun spec_lt :: "scalar \<Rightarrow> int \<Rightarrow> bool" where
  "spec_lt (Num n) limit = (n < limit)"
| "spec_lt (Bool b) limit = ((if b then 1 else 0) < limit)"
| "spec_lt v limit = False"

fun spec_gt :: "scalar \<Rightarrow> int \<Rightarrow> bool" where
  "spec_gt (Num n) limit = (n > limit)"
| "spec_gt (Bool b) limit = ((if b then 1 else 0) > limit)"
| "spec_gt v limit = False"

fun spec_len_lt :: "scalar \<Rightarrow> int \<Rightarrow> bool" where
  "spec_len_lt (Str t) limit = (int (length t) < limit)"
| "spec_len_lt v limit = False"

fun spec_len_gt :: "scalar \<Rightarrow> int \<Rightarrow> bool" where
  "spec_len_gt (Str t) limit = (int (length t) > limit)"
| "spec_len_gt v limit = False"

section \<open>Construction of an error\<close>

lemma not_isupper_mixed_case: "\<not> isupper ''Min_Value''"
  by (simp add: isupper_def ascii_uppercase_def ascii_lowercase_def)

text \<open>C5. Constructing a variant whose \<^verbatim>\<open>CODE\<close> is \<^verbatim>\<open>None\<close> or not uppercase fails with
  an \<^verbatim>\<open>AssertionError\<close> (the base class \<^verbatim>\<open>Error\<close> is such a class); the shipped classes
  are the thirteen classes other than the base, constructing each of them succeeds,
  each has a non-empty uppercase code, and the thirteen codes are pairwise distinct.\<close>

theorem Error_init_contract:
  "(code = None \<or> (\<exists>c. code = Some c \<and> \<not> isupper c)
      \<longrightarrow> (\<exists>msg. post_init code = Inl (AssertionError msg)))
   \<and> init Error = Inl (AssertionError ''`CODE` cannot be None.'')
   \<and> length shipped_classes = 13
   \<and> (\<forall>cls. cls \<in> set shipped_classes \<longleftrightarrow> cls \<noteq> Error)
   \<and> list_all (\<lambda>cls. init cls = Inr cls \<and> (\<exists>c. CODE cls = Some c \<and> c \<noteq> [] \<and> isupper c))
         shipped_classes
   \<and> distinct (map CODE shipped_classes)"
proof -
  have bad: "code = None \<or> (\<exists>c. code = Some c \<and> \<not> isupper c)
      \<longrightarrow> (\<exists>msg. post_init code = Inl (AssertionError msg))"
    by (auto simp: post_init_def)
  have base: "init Error = Inl (AssertionError ''`CODE` cannot be None.'')"
    by (simp add: init_def post_init_def bind_exn_def)
  have n: "length shipped_classes = 13"
    by (simp add: shipped_classes_def)
  have mem: "\<forall>cls. cls \<in> set shipped_classes \<longleftrightarrow> cls \<noteq> Error"
  proof
    fix cls show "cls \<in> set shipped_classes \<longleftrightarrow> cls \<noteq> Error"
      by (cases cls) (simp_all add: shipped_classes_def)
  qed
  have ok: "list_all (\<lambda>cls. init cls = Inr cls \<and> (\<exists>c. CODE cls = Some c \<and> c \<noteq> [] \<and> isupper c))
         shipped_classes"
    by (simp add: shipped_classes_def init_def post_init_def bind_exn_def isupper_def
        ascii_uppercase_def ascii_lowercase_def)
  have d: "distinct (map CODE shipped_classes)"
    by (simp add: shipped_classes_def)
  from bad base n mem ok d show ?thesis by blast
qed

theorem Error_init_contract_witness:
  "\<not> isupper ''Min_Value''
   \<and> (\<exists>msg. post_init (Some ''Min_Value'') = Inl (AssertionError msg))
   \<and> (\<exists>msg. post_init None = Inl (AssertionError msg))"
  using Error_init_contract [of "Some ''Min_Value''"] Error_init_contract [of None]
    not_isupper_mixed_case
  by simp

section \<open>A required field that is absent\<close>

text \<open>C9. \<^verbatim>\<open>FieldRequiredError.to_dict\<close> yields the report with reason \<^verbatim>\<open>FIELD_REQUIRED\<close>,
  no index and no extra key, whatever column it is given, \<^verbatim>\<open>None\<close> included: the
  argument is not read.\<close>

theorem FieldRequiredError_to_dict_always_empty:
  "FieldRequiredError_to_dict s =
     Inr \<lparr> reason = Some ''FIELD_REQUIRED'', indexes = [], extras = [] \<rparr>
   \<and> FieldRequiredError_to_dict (None :: 'i series option) =
     Inr \<lparr> reason = Some ''FIELD_REQUIRED'', indexes = [], extras = [] \<rparr>"
  by (simp add: FieldRequiredError_to_dict_def form_response_def)

section \<open>Selections of a column\<close>

lemma loc_map: "loc s (map f s) = filter f s"
  unfolding loc_def by (induction s) auto

lemma loc_map_snd: "loc s (map (f \<circ> snd) s) = filter (\<lambda>(i, v). f v) s"
  by (simp add: loc_map comp_def case_prod_unfold)

lemma loc_series_apply: "loc s (series_apply f s) = filter (\<lambda>(i, v). f v) s"
  by (simp add: series_apply_def loc_map)

lemma series_apply_map: "map g (series_apply f s) = map (\<lambda>(i, v). g (f v)) s"
  by (simp add: series_apply_def case_prod_unfold)

lemma traverse_lt:
  "traverse (lt_scalar limit) vs =
     (if list_ex is_Str vs then Inl TypeError else Inr (map (\<lambda>v. spec_lt v limit) vs))"
proof (induction vs)
  case Nil
  then show ?case by simp
next
  case (Cons v vs)
  then show ?case by (cases v) (simp_all add: lt_scalar_def bind_exn_def)
qed

lemma traverse_gt:
  "traverse (gt_scalar limit) vs =
     (if list_ex is_Str vs then Inl TypeError else Inr (map (\<lambda>v. spec_gt v limit) vs))"
proof (induction vs)
  case Nil
  then show ?case by simp
next
  case (Cons v vs)
  then show ?case by (cases v) (simp_all add: gt_scalar_def bind_exn_def)
qed

lemma MinValueError_on_series:
  "MinValueError_to_dict limit (Some (Series c)) =
     (if list_ex is_Str (map snd c) then Inl TypeError
      else Inr \<lparr> reason = Some ''MIN_VALUE'',
                 indexes = map fst (filter (\<lambda>(i, v). spec_lt v limit) c),
                 extras = [(''limit_value'', IntArg limit)] \<rparr>)"
  by (simp add: MinValueError_to_dict_def series_lt_def traverse_lt bind_exn_def
      form_response_def loc_map_snd)

lemma MaxValueError_on_series:
  "MaxValueError_to_dict limit (Some (Series c)) =
     (if list_ex is_Str (map snd c) then Inl TypeError
      else Inr \<lparr> reason = Some ''MAX_VALUE'',
                 indexes = map fst (filter (\<lambda>(i, v). spec_gt v limit) c),
                 extras = [(''limit_value'', IntArg limit)] \<rparr>)"
  by (simp add: MaxValueError_to_dict_def series_gt_def traverse_gt bind_exn_def
      form_response_def loc_map_snd)

lemma infer_dtype_with_text:
  assumes "list_ex is_Str vs"
  shows "infer_dtype vs \<notin> {Inferred_integer, Inferred_boolean}"
proof -
  from assms obtain t where t: "Str t \<in> set vs"
    by (auto simp: list_ex_iff elim: is_Str.elims)
  let ?xs = "filter (\<lambda>v. v \<noteq> Null) vs"
  from t have mem: "Str t \<in> set ?xs" by simp
  then have ne: "?xs \<noteq> []" by (auto simp: filter_empty_conv)
  from mem have "\<not> list_all is_Num ?xs" "\<not> list_all is_Bool ?xs"
    by (auto simp: list_all_iff)
  with ne show ?thesis by (simp add: infer_dtype_def Let_def)
qed

lemma opt_lt_len: "opt_lt limit (str_len_scalar v) = spec_len_lt v limit"
  by (cases v) (simp_all add: opt_lt_def)

lemma opt_gt_len: "opt_gt limit (str_len_scalar v) = spec_len_gt v limit"
  by (cases v) (simp_all add: opt_gt_def)

lemma loc_str_len_lt:
  "loc c (map (opt_lt limit) (series_apply str_len_scalar c)) = filter (\<lambda>(i, v). spec_len_lt v limit) c"
proof -
  have "map (opt_lt limit) (series_apply str_len_scalar c) = map (\<lambda>(i, v). spec_len_lt v limit) c"
    by (induction c) (auto simp: series_apply_def opt_lt_len)
  then show ?thesis by (simp add: loc_map)
qed

lemma loc_str_len_gt:
  "loc c (map (opt_gt limit) (series_apply str_len_scalar c)) = filter (\<lambda>(i, v). spec_len_gt v limit) c"
proof -
  have "map (opt_gt limit) (series_apply str_len_scalar c) = map (\<lambda>(i, v). spec_len_gt v limit) c"
    by (induction c) (auto simp: series_apply_def opt_gt_len)
  then show ?thesis by (simp add: loc_map)
qed

lemma MinLengthError_on_series:
  "MinLengthError_to_dict limit (Some (Series c)) =
     (if infer_dtype (map snd c) \<in> {Inferred_integer, Inferred_boolean} then Inl AttributeError
      else Inr \<lparr> reason = Some ''MIN_LENGTH_VALUE'',
                 indexes = map fst (filter (\<lambda>(i, v). spec_len_lt v limit) c),
                 extras = [(''limit_value'', IntArg limit)] \<rparr>)"
  by (simp add: MinLengthError_to_dict_def str_len_def bind_exn_def form_response_def
      loc_str_len_lt)

lemma MaxLengthError_on_series:
  "MaxLengthError_to_dict limit (Some (Series c)) =
     (if infer_dtype (map snd c) \<in> {Inferred_integer, Inferred_boolean} then Inl AttributeError
      else Inr \<lparr> reason = Some ''MAX_LENGTH_VALUE'',
                 indexes = map fst (filter (\<lambda>(i, v). spec_len_gt v limit) c),
                 extras = [(''limit_value'', IntArg limit)] \<rparr>)"
  by (simp add: MaxLengthError_to_dict_def str_len_def bind_exn_def form_response_def
      loc_str_len_gt)





section \<open>The limit rules\<close>

text \<open>C1, as amended. On a column that holds no text, \<^verbatim>\<open>MinValueError(limit).to_dict\<close>
  reports exactly the indexes of the rows with \<^verbatim>\<open>c[i] < limit\<close> and \<^verbatim>\<open>MaxValueError\<close>
  those with \<^verbatim>\<open>c[i] > limit\<close>; on a column that holds at least one text,
  \<^verbatim>\<open>MinLengthError\<close> reports exactly the indexes of the rows whose value is a text
  shorter than the limit and \<^verbatim>\<open>MaxLengthError\<close> those whose value is a text longer than
  it. Each report carries \<^verbatim>\<open>limit_value\<close> and lists the indexes in row order.\<close>

theorem limit_rules_report:
  "(\<not> list_ex is_Str (map snd c) \<longrightarrow>
      MinValueError_to_dict limit (Some (Series c)) =
        Inr \<lparr> reason = Some ''MIN_VALUE'',
              indexes = map fst (filter (\<lambda>(i, v). spec_lt v limit) c),
              extras = [(''limit_value'', IntArg limit)] \<rparr>
    \<and> MaxValueError_to_dict limit (Some (Series c)) =
        Inr \<lparr> reason = Some ''MAX_VALUE'',
              indexes = map fst (filter (\<lambda>(i, v). spec_gt v limit) c),
              extras = [(''limit_value'', IntArg limit)] \<rparr>)
   \<and> (list_ex is_Str (map snd c) \<longrightarrow>
      MinLengthError_to_dict limit (Some (Series c)) =
        Inr \<lparr> reason = Some ''MIN_LENGTH_VALUE'',
              indexes = map fst (filter (\<lambda>(i, v). spec_len_lt v limit) c),
              extras = [(''limit_value'', IntArg limit)] \<rparr>
    \<and> MaxLengthError_to_dict limit (Some (Series c)) =
        Inr \<lparr> reason = Some ''MAX_LENGTH_VALUE'',
              indexes = map fst (filter (\<lambda>(i, v). spec_len_gt v limit) c),
              extras = [(''limit_value'', IntArg limit)] \<rparr>)"
proof (intro conjI impI)
  assume "\<not> list_ex is_Str (map snd c)"
  then show "MinValueError_to_dict limit (Some (Series c)) =
        Inr \<lparr> reason = Some ''MIN_VALUE'',
              indexes = map fst (filter (\<lambda>(i, v). spec_lt v limit) c),
              extras = [(''limit_value'', IntArg limit)] \<rparr>"
    by (simp only: MinValueError_on_series if_False)
next
  assume "\<not> list_ex is_Str (map snd c)"
  then show "MaxValueError_to_dict limit (Some (Series c)) =
        Inr \<lparr> reason = Some ''MAX_VALUE'',
              indexes = map fst (filter (\<lambda>(i, v). spec_gt v limit) c),
              extras = [(''limit_value'', IntArg limit)] \<rparr>"
    by (simp only: MaxValueError_on_series if_False)
next
  assume "list_ex is_Str (map snd c)"
  then have "infer_dtype (map snd c) \<notin> {Inferred_integer, Inferred_boolean}"
    by (rule infer_dtype_with_text)
  then show "MinLengthError_to_dict limit (Some (Series c)) =
        Inr \<lparr> reason = Some ''MIN_LENGTH_VALUE'',
              indexes = map fst (filter (\<lambda>(i, v). spec_len_lt v limit) c),
              extras = [(''limit_value'', IntArg limit)] \<rparr>"
    by (simp only: MinLengthError_on_series if_False)
next
  assume "list_ex is_Str (map snd c)"
  then have "infer_dtype (map snd c) \<notin> {Inferred_integer, Inferred_boolean}"
    by (rule infer_dtype_with_text)
  then show "MaxLengthError_to_dict limit (Some (Series c)) =
        Inr \<lparr> reason = Some ''MAX_LENGTH_VALUE'',
              indexes = map fst (filter (\<lambda>(i, v). spec_len_gt v limit) c),
              extras = [(''limit_value'', IntArg limit)] \<rparr>"
    by (simp only: MaxLengthError_on_series if_False)
qed

theorem limit_rules_report_witness:
  "MinValueError_to_dict 0 (Some (Series [(0::nat, Num 1), (1, Num 10), (2, Num (- 1))])) =
     Inr \<lparr> reason = Some ''MIN_VALUE'', indexes = [2], extras = [(''limit_value'', IntArg 0)] \<rparr>
   \<and> MaxValueError_to_dict 0 (Some (Series [(0::nat, Num 1), (1, Num 10), (2, Num (- 1))])) =
     Inr \<lparr> reason = Some ''MAX_VALUE'', indexes = [0, 1], extras = [(''limit_value'', IntArg 0)] \<rparr>
   \<and> MinLengthError_to_dict 3 (Some (Series [(0::nat, Str ''ab''), (1, Str ''abcd''), (2, Null)])) =
     Inr \<lparr> reason = Some ''MIN_LENGTH_VALUE'', indexes = [0],
           extras = [(''limit_value'', IntArg 3)] \<rparr>
   \<and> MaxLengthError_to_dict 3 (Some (Series [(0::nat, Str ''ab''), (1, Str ''abcd''), (2, Null)])) =
     Inr \<lparr> reason = Some ''MAX_LENGTH_VALUE'', indexes = [1],
           extras = [(''limit_value'', IntArg 3)] \<rparr>"
  using limit_rules_report [where c = "[(0::nat, Num 1), (1, Num 10), (2, Num (- 1))]" and limit = 0]
    limit_rules_report [where c = "[(0::nat, Str ''ab''), (1, Str ''abcd''), (2, Null)]" and limit = 3]
  by simp

text \<open>C1 as stated fails: a text in the column makes \<^verbatim>\<open>MinValueError.to_dict\<close> raise, so
  the row below the limit is not reported; \<^verbatim>\<open>MinLengthError.to_dict\<close> raises on a column
  of numbers; and beside a text, a number is not reported however short it reads.\<close>

theorem limit_rules_counterexample:
  "MinValueError_to_dict 0 (Some (Series [(0::nat, Str ''abc''), (1, Num (- 1))])) = Inl TypeError
   \<and> map fst (filter (\<lambda>(i, v). spec_lt v 0) [(0::nat, Str ''abc''), (1, Num (- 1))]) = [1]
   \<and> MinLengthError_to_dict 3 (Some (Series [(0::nat, Num 12345)])) = Inl AttributeError
   \<and> MinLengthError_to_dict 2 (Some (Series [(0::nat, Str ''ab''), (1, Num 7)])) =
       Inr \<lparr> reason = Some ''MIN_LENGTH_VALUE'', indexes = [],
             extras = [(''limit_value'', IntArg 2)] \<rparr>
   \<and> int (length (py_str (Num 7))) < 2"
  by (simp add: MinValueError_to_dict_def series_lt_def lt_scalar_def bind_exn_def
      MinLengthError_on_series infer_dtype_def str_nat.simps)


section \<open>Which evaluations raise\<close>





section \<open>Non-numeric values\<close>



lemma NonNumericValueError_on_series:
  "NonNumericValueError_to_dict (Some c) =
     Inr \<lparr> reason = Some ''NON_NUMERIC_VALUE'',
           indexes = map fst (filter (\<lambda>(i, v). v \<noteq> Null \<and> \<not> isnumeric (lstrip_minus (py_str v))) c),
           extras = [] \<rparr>"
proof -
  have "dropna (filter (\<lambda>(i, v). \<not> isnumeric (lstrip_minus (py_str v))) c) =
        filter (\<lambda>(i, v). v \<noteq> Null \<and> \<not> isnumeric (lstrip_minus (py_str v))) c"
    unfolding dropna_def by (induction c) auto
  then show ?thesis
    by (simp add: NonNumericValueError_to_dict_def form_response_def loc_series_apply)
qed




text \<open>C10. A row whose value is missing is never part of the selection reported by
  \<^verbatim>\<open>NonNumericValueError.to_dict\<close>, although the text of a missing value is not
  numeric: with distinct index labels, the label of a missing value is not among the
  reported indexes. \<^verbatim>\<open>NullNotAllowedError.to_dict\<close> reports exactly the rows whose value
  is missing.\<close>

theorem null_rows_not_non_numeric:
  "(\<exists>r. NonNumericValueError_to_dict (Some c) = Inr r
        \<and> indexes r =
            map fst (filter (\<lambda>(i, v). v \<noteq> Null \<and> \<not> isnumeric (lstrip_minus (py_str v))) c)
        \<and> (distinct (map fst c) \<longrightarrow> (\<forall>i. (i, Null) \<in> set c \<longrightarrow> i \<notin> set (indexes r))))
   \<and> \<not> isnumeric (lstrip_minus (py_str Null))
   \<and> (\<exists>r. NullNotAllowedError_to_dict (Some c) = Inr r
        \<and> indexes r = map fst (filter (\<lambda>(i, v). v = Null) c))"
proof -
  let ?P = "\<lambda>(i, v). v \<noteq> Null \<and> \<not> isnumeric (lstrip_minus (py_str v))"
  have excl: "distinct (map fst c) \<longrightarrow>
      (\<forall>i. (i, Null) \<in> set c \<longrightarrow> i \<notin> set (map fst (filter ?P c)))"
  proof (intro impI allI notI)
    fix i
    assume d: "distinct (map fst c)" and n: "(i, Null) \<in> set c"
      and m: "i \<in> set (map fst (filter ?P c))"
    from m obtain v where v: "(i, v) \<in> set c" "v \<noteq> Null" by auto
    from d n v(1) have "v = Null" by (rule eq_key_imp_eq_value [symmetric])
    with v(2) show False by simp
  qed
  have txt_null: "\<not> isnumeric (lstrip_minus (py_str Null))"
    by (simp add: isnumeric_def lstrip_minus_def)
  have nulls: "NullNotAllowedError_to_dict (Some c) =
      Inr \<lparr> reason = Some ''NULL_NOT_ALLOWED'', indexes = map fst (filter (\<lambda>(i, v). v = Null) c),
            extras = [] \<rparr>"
    by (simp add: NullNotAllowedError_to_dict_def form_response_def isnull_def loc_series_apply)
  from excl txt_null nulls show ?thesis
    by (simp add: NonNumericValueError_on_series)
qed

theorem null_rows_not_non_numeric_witness:
  "distinct (map fst [(0::nat, Str ''7''), (1, Null), (2, Str ''x'')])
   \<and> (1, Null) \<in> set [(0::nat, Str ''7''), (1, Null), (2, Str ''x'')]
   \<and> (\<exists>r. NonNumericValueError_to_dict (Some [(0::nat, Str ''7''), (1, Null), (2, Str ''x'')]) = Inr r
         \<and> indexes r = [2] \<and> 1 \<notin> set (indexes r))
   \<and> (\<exists>r. NullNotAllowedError_to_dict (Some [(0::nat, Str ''7''), (1, Null), (2, Str ''x'')]) = Inr r
         \<and> indexes r = [1])"
  using null_rows_not_non_numeric [where c = "[(0::nat, Str ''7''), (1, Null), (2, Str ''x'')]"]
  by (simp add: isnumeric_def lstrip_minus_def)


section \<open>Date and date-time formats\<close>

lemma IncorrectDateFormatError_on_series:
  "IncorrectDateFormatError_to_dict to_datetime self format (Some c) =
     Inr \<lparr> reason = CODE self,
           indexes = map fst (filter (\<lambda>(i, v). to_datetime format v = None) c),
           extras = [(''format'', StrArg format)] \<rparr>"
proof -
  let ?dates = "map (\<lambda>(i, v). (i, to_datetime format v)) c"
  have "map fst (loc ?dates (map (\<lambda>(i, x). x = None) ?dates)) =
        map fst (filter (\<lambda>(i, v). to_datetime format v = None) c)"
    unfolding loc_map by (induction c) auto
  then show ?thesis
    by (simp add: IncorrectDateFormatError_to_dict_def form_response_def Let_def)
qed

text \<open>C8. For every column and format, \<^verbatim>\<open>IncorrectDateTimeFormatError(f).to_dict\<close> gives
  the report of \<^verbatim>\<open>IncorrectDateFormatError(f).to_dict\<close> with the reason replaced by
  \<^verbatim>\<open>INCORRECT_DATETIME_FORMAT\<close>: both list the indexes of the rows that fail to coerce
  under the format, in row order, and both carry the key \<^verbatim>\<open>format\<close>; on \<^verbatim>\<open>None\<close> both
  raise the same exception.\<close>

theorem IncorrectDateTimeFormatError_differs_in_reason_only:
  "IncorrectDateFormatError_to_dict to_datetime IncorrectDateFormatError format (Some c) =
     Inr \<lparr> reason = Some ''INCORRECT_DATE_FORMAT'',
           indexes = map fst (filter (\<lambda>(i, v). to_datetime format v = None) c),
           extras = [(''format'', StrArg format)] \<rparr>
   \<and> IncorrectDateTimeFormatError_to_dict to_datetime format (Some c) =
     Inr \<lparr> reason = Some ''INCORRECT_DATETIME_FORMAT'',
           indexes = map fst (filter (\<lambda>(i, v). to_datetime format v = None) c),
           extras = [(''format'', StrArg format)] \<rparr>
   \<and> IncorrectDateTimeFormatError_to_dict to_datetime format s =
     map_sum id (\<lambda>r. r\<lparr>reason := Some ''INCORRECT_DATETIME_FORMAT''\<rparr>)
       (IncorrectDateFormatError_to_dict to_datetime IncorrectDateFormatError format s)"
proof -
  have "IncorrectDateTimeFormatError_to_dict to_datetime format s =
     map_sum id (\<lambda>r. r\<lparr>reason := Some ''INCORRECT_DATETIME_FORMAT''\<rparr>)
       (IncorrectDateFormatError_to_dict to_datetime IncorrectDateFormatError format s)"
    by (cases s)
      (simp_all add: IncorrectDateTimeFormatError_to_dict_def IncorrectDateFormatError_to_dict_def
        form_response_def Let_def)
  then show ?thesis
    by (simp add: IncorrectDateTimeFormatError_to_dict_def IncorrectDateFormatError_on_series)
qed

theorem IncorrectDateTimeFormatError_witness:
  "IncorrectDateTimeFormatError_to_dict
     (\<lambda>(f::string) v. if v = Str ''2021-01-01'' then Some (2021::nat, 1::nat, 1::nat) else None)
     ''%Y-%m-%d'' (Some [(0::nat, Str ''2021-01-01''), (1, Str ''not-a-date'')]) =
     Inr \<lparr> reason = Some ''INCORRECT_DATETIME_FORMAT'', indexes = [1],
           extras = [(''format'', StrArg ''%Y-%m-%d'')] \<rparr>"
proof -
  have "IncorrectDateTimeFormatError_to_dict
     (\<lambda>(f::string) v. if v = Str ''2021-01-01'' then Some (2021::nat, 1::nat, 1::nat) else None)
     ''%Y-%m-%d'' (Some [(0::nat, Str ''2021-01-01''), (1, Str ''not-a-date'')]) =
     Inr \<lparr> reason = Some ''INCORRECT_DATETIME_FORMAT'',
           indexes = map fst (filter (\<lambda>(i, v). (\<lambda>(f::string) v. if v = Str ''2021-01-01'' then Some (2021::nat, 1::nat, 1::nat) else None) ''%Y-%m-%d'' v = None) [(0::nat, Str ''2021-01-01''), (1, Str ''not-a-date'')]),
           extras = [(''format'', StrArg ''%Y-%m-%d'')] \<rparr>"
    by (rule IncorrectDateTimeFormatError_differs_in_reason_only [THEN conjunct2, THEN conjunct1])
  then show ?thesis by simp
qed

section \<open>Dispatch from a constraint descriptor\<close>

lemma init_shipped:
  "init MinValueError = Inr MinValueError" "init MaxValueError = Inr MaxValueError"
  "init MinLengthError = Inr MinLengthError" "init MaxLengthError = Inr MaxLengthError"
  "init NonUniqueTogetherError = Inr NonUniqueTogetherError"
  by (simp_all add: init_def post_init_def bind_exn_def isupper_def ascii_uppercase_def
      ascii_lowercase_def)

text \<open>C2. For each of the five descriptor kinds, \<^verbatim>\<open>log_validator_error\<close> appends the
  report that the matching error, constructed with the descriptor's \<^verbatim>\<open>limit_value\<close>,
  produces on the same column or table, and raises what that \<^verbatim>\<open>to_dict\<close> raises,
  appending nothing; for any other descriptor it raises \<^verbatim>\<open>NotImplementedError\<close> and
  appends nothing.\<close>

theorem log_validator_error_dispatch:
  "log_validator_error (MinValueValidator limit) s self =
     (case MinValueError_to_dict limit (Some s) of
        Inl e \<Rightarrow> Inl e | Inr r \<Rightarrow> Inr (self\<lparr>errors := errors self @ [r]\<rparr>))
   \<and> log_validator_error (MaxValueValidator limit) s self =
     (case MaxValueError_to_dict limit (Some s) of
        Inl e \<Rightarrow> Inl e | Inr r \<Rightarrow> Inr (self\<lparr>errors := errors self @ [r]\<rparr>))
   \<and> log_validator_error (MinLengthValidator limit) s self =
     (case MinLengthError_to_dict limit (Some s) of
        Inl e \<Rightarrow> Inl e | Inr r \<Rightarrow> Inr (self\<lparr>errors := errors self @ [r]\<rparr>))
   \<and> log_validator_error (MaxLengthValidator limit) s self =
     (case MaxLengthError_to_dict limit (Some s) of
        Inl e \<Rightarrow> Inl e | Inr r \<Rightarrow> Inr (self\<lparr>errors := errors self @ [r]\<rparr>))
   \<and> log_validator_error (UniqueTogetherValidator flds) s self =
     (case NonUniqueTogetherError_to_dict flds (Some s) of
        Inl e \<Rightarrow> Inl e | Inr r \<Rightarrow> Inr (self\<lparr>errors := errors self @ [r]\<rparr>))
   \<and> log_validator_error (OtherValidator name) s self =
     Inl (NotImplementedError (''Support for `'' @ name @ ''` validator not implemented yet.''))"
  by (simp add: log_validator_error_def init_shipped bind_exn_def)

theorem log_validator_error_dispatch_witness:
  "log_validator_error (MinValueValidator 0)
     (Series [(0::nat, Num 1), (1, Num 10), (2, Num (- 1))]) \<lparr>errors = []\<rparr> =
     Inr \<lparr>errors = [\<lparr> reason = Some ''MIN_VALUE'', indexes = [2],
                      extras = [(''limit_value'', IntArg 0)] \<rparr>]\<rparr>
   \<and> log_validator_error (MaxValueValidator 0)
     (Series [(0::nat, Num 1), (1, Str ''n/a'')]) \<lparr>errors = []\<rparr> = Inl TypeError
   \<and> log_validator_error (OtherValidator ''RegexValidator'')
     (Series [(0::nat, Num 1)]) \<lparr>errors = []\<rparr> =
     Inl (NotImplementedError ''Support for `RegexValidator` validator not implemented yet.'')"
  using
    log_validator_error_dispatch [where limit = 0 and self = "\<lparr>errors = []\<rparr>"
      and s = "Series [(0::nat, Num 1), (1, Num 10), (2, Num (- 1))]"]
    log_validator_error_dispatch [where limit = 0 and self = "\<lparr>errors = []\<rparr>"
      and s = "Series [(0::nat, Num 1), (1, Str ''n/a'')]"]
    log_validator_error_dispatch [where name = "''RegexValidator''" and self = "\<lparr>errors = []\<rparr>"
      and s = "Series [(0::nat, Num 1)]"]
  by (simp add: MinValueError_on_series MaxValueError_on_series)

section \<open>The accumulator keeps the call order\<close>

lemma log_errors_prefix:
  "errors (snd (log_errors calls self)) =
     errors self @ map (\<lambda>(to_dict, s). projr (to_dict s))
                     (takeWhile (\<lambda>(to_dict, s). \<not> isl (to_dict s)) calls)"
proof (induction calls arbitrary: self)
  case Nil
  then show ?case by simp
next
  case (Cons call calls)
  obtain to_dict s where call: "call = (to_dict, s)" by (cases call)
  show ?case
  proof (cases "to_dict s")
    case (Inl e)
    with call show ?thesis by (simp add: log_error_def bind_exn_def)
  next
    case (Inr r)
    with call Cons.IH [of "self\<lparr>errors := errors self @ [r]\<rparr>"] show ?thesis
      by (simp add: log_error_def bind_exn_def)
  qed
qed

lemma log_errors_completes:
  "list_all (\<lambda>(to_dict, s). \<not> isl (to_dict s)) calls \<Longrightarrow> fst (log_errors calls self) = None"
proof (induction calls arbitrary: self)
  case Nil
  then show ?case by simp
next
  case (Cons call calls)
  obtain to_dict s where call: "call = (to_dict, s)" by (cases call)
  with Cons.prems obtain r where r: "to_dict s = Inr r"
    by (cases "to_dict s") auto
  from Cons.prems have "list_all (\<lambda>(to_dict, s). \<not> isl (to_dict s)) calls" by simp
  then have "fst (log_errors calls (self\<lparr>errors := errors self @ [r]\<rparr>)) = None"
    by (rule Cons.IH)
  with call r show ?case by (simp add: log_error_def bind_exn_def)
qed

text \<open>C6. A call of \<^verbatim>\<open>log_error\<close> appends the one report its error produces and leaves
  the earlier entries as they are. After a sequence of calls the list holds, behind
  the entries it started with, the reports of the calls in call order, up to the
  first call that raised; when no call raises, that is one report per call, and the
  length has grown by the number of calls.\<close>

theorem log_error_appends_in_call_order:
  "log_error to_dict s self =
     (case to_dict s of Inl e \<Rightarrow> Inl e | Inr r \<Rightarrow> Inr (self\<lparr>errors := errors self @ [r]\<rparr>))
   \<and> errors (snd (log_errors calls self)) =
       errors self @ map (\<lambda>(to_dict, s). projr (to_dict s))
                       (takeWhile (\<lambda>(to_dict, s). \<not> isl (to_dict s)) calls)
   \<and> (list_all (\<lambda>(to_dict, s). \<not> isl (to_dict s)) calls \<longrightarrow>
        fst (log_errors calls self) = None
      \<and> errors (snd (log_errors calls self)) =
          errors self @ map (\<lambda>(to_dict, s). projr (to_dict s)) calls
      \<and> length (errors (snd (log_errors calls self))) = length (errors self) + length calls)"
proof -
  have one: "log_error to_dict s self =
     (case to_dict s of Inl e \<Rightarrow> Inl e | Inr r \<Rightarrow> Inr (self\<lparr>errors := errors self @ [r]\<rparr>))"
    by (simp add: log_error_def bind_exn_def)
  have all: "list_all (\<lambda>(to_dict, s). \<not> isl (to_dict s)) calls \<longrightarrow>
        fst (log_errors calls self) = None
      \<and> errors (snd (log_errors calls self)) =
          errors self @ map (\<lambda>(to_dict, s). projr (to_dict s)) calls
      \<and> length (errors (snd (log_errors calls self))) = length (errors self) + length calls"
  proof
    assume a: "list_all (\<lambda>(to_dict, s). \<not> isl (to_dict s)) calls"
    then have "takeWhile (\<lambda>(to_dict, s). \<not> isl (to_dict s)) calls = calls"
      by (simp add: list_all_iff)
    with log_errors_prefix [of calls self]
    have e: "errors (snd (log_errors calls self)) =
          errors self @ map (\<lambda>(to_dict, s). projr (to_dict s)) calls"
      by simp
    from a have "fst (log_errors calls self) = None" by (rule log_errors_completes)
    with e show "fst (log_errors calls self) = None
      \<and> errors (snd (log_errors calls self)) =
          errors self @ map (\<lambda>(to_dict, s). projr (to_dict s)) calls
      \<and> length (errors (snd (log_errors calls self))) = length (errors self) + length calls"
      by simp
  qed
  from one log_errors_prefix [of calls self] all show ?thesis by blast
qed

theorem log_error_appends_in_call_order_witness:
  "log_errors
     [(MinValueError_to_dict 0, Some (Series [(0::nat, Num 1), (1, Num 10), (2, Num (- 1))])),
      (MaxValueError_to_dict 0, Some (Series [(0::nat, Num 1), (1, Num 10), (2, Num (- 1))])),
      (MinValueError_to_dict 0, Some (Series [(0::nat, Num 1), (1, Num 10), (2, Num (- 1))]))]
     \<lparr>errors = []\<rparr> =
   (None,
    \<lparr>errors =
       [\<lparr> reason = Some ''MIN_VALUE'', indexes = [2], extras = [(''limit_value'', IntArg 0)] \<rparr>,
        \<lparr> reason = Some ''MAX_VALUE'', indexes = [0, 1], extras = [(''limit_value'', IntArg 0)] \<rparr>,
        \<lparr> reason = Some ''MIN_VALUE'', indexes = [2], extras = [(''limit_value'', IntArg 0)] \<rparr>]\<rparr>)"
  using log_error_appends_in_call_order
    [where self = "\<lparr>errors = []\<rparr>" and calls =
     "[(MinValueError_to_dict 0, Some (Series [(0::nat, Num 1), (1, Num 10), (2, Num (- 1))])),
      (MaxValueError_to_dict 0, Some (Series [(0::nat, Num 1), (1, Num 10), (2, Num (- 1))])),
      (MinValueError_to_dict 0, Some (Series [(0::nat, Num 1), (1, Num 10), (2, Num (- 1))]))]"
     and to_dict = "MinValueError_to_dict 0"
     and s = "Some (Series [(0::nat, Num 1), (1, Num 10), (2, Num (- 1))])"]
  by (simp add: MinValueError_on_series MaxValueError_on_series log_error_def bind_exn_def)


section \<open>Rows that repeat an earlier row\<close>

lemma length_duplicated: "length (duplicated seen ks) = length ks"
  by (induction ks arbitrary: seen) auto

lemma earlier_Cons:
  "(\<exists>j<Suc i. (k # ks) ! j = x) \<longleftrightarrow> k = x \<or> (\<exists>j<i. ks ! j = x)"
  by (auto simp: less_Suc_eq_0_disj)

lemma duplicated_nth:
  "duplicated seen ks =
     map (\<lambda>i. ks ! i \<in> set seen \<or> (\<exists>j<i. ks ! j = ks ! i)) [0..<length ks]"
proof (induction ks arbitrary: seen)
  case Nil
  then show ?case by simp
next
  case (Cons k ks)
  have "map (\<lambda>i. (k # ks) ! i \<in> set seen \<or> (\<exists>j<i. (k # ks) ! j = (k # ks) ! i))
          [0..<length (k # ks)] =
        (k \<in> set seen) #
          map (\<lambda>i. ks ! i \<in> set (k # seen) \<or> (\<exists>j<i. ks ! j = ks ! i)) [0..<length ks]"
    by (auto simp: map_upt_Suc earlier_Cons simp del: upt_Suc)
  with Cons.IH [of "k # seen"] show ?case by simp
qed

lemma loc_nth:
  assumes "length keep = length rs"
  shows "loc rs keep = map (\<lambda>k. rs ! k) (filter (\<lambda>k. keep ! k) [0..<length rs])"
proof -
  from assms have "zip rs keep = map (\<lambda>k. (rs ! k, keep ! k)) [0..<length rs]"
    by (intro nth_equalityI) simp_all
  then show ?thesis
    by (simp add: loc_def filter_map comp_def)
qed

lemma hash_key_eq: "hash_key a = hash_key b \<longleftrightarrow> py_eq a b"
  by (cases a; cases b) auto

lemma row_key_eq:
  assumes "set flds \<subseteq> set cols"
  shows "row_key cols flds r = row_key cols flds r' \<longleftrightarrow> same_on flds r r'"
proof -
  from assms have "set (filter (\<lambda>f. f \<in> set flds) cols) = set flds" by auto
  then show ?thesis
    by (simp add: row_key_def same_on_def list_all_iff hash_key_eq)
qed

lemma NonUniqueTogetherError_on_table:
  assumes "flds \<noteq> []" and "set flds \<subseteq> set (columns t)"
  shows "NonUniqueTogetherError_to_dict flds (Some (DataFrame t)) =
     Inr \<lparr> reason = Some ''NON_UNIQUE_TOGETHER'',
           indexes = map (\<lambda>k. fst (rows t ! k)) (spec_duplicate_positions flds t),
           extras = [(''unique_together_fields'', ListArg flds)] \<rparr>"
proof (cases "rows t = []")
  case True
  then show ?thesis
    by (simp add: NonUniqueTogetherError_to_dict_def DataFrame_duplicated_def getitem_def
        bind_exn_def form_response_def loc_def spec_duplicate_positions_def)
next
  case False
  let ?keys = "map (\<lambda>(i, r). row_key (columns t) flds r) (rows t)"
  let ?n = "length (rows t)"
  from assms have cols: "columns t \<noteq> []" by auto
  from assms(2) have known: "list_all (\<lambda>f. f \<in> set (columns t)) flds"
    by (auto simp: list_all_iff)
  have dup: "DataFrame_duplicated flds t = Inr (duplicated [] ?keys)"
    using False cols known assms(1) by (simp add: DataFrame_duplicated_def)
  have sel: "getitem t (duplicated [] ?keys) = Inr (loc (rows t) (duplicated [] ?keys))"
    by (simp add: getitem_def length_duplicated)
  have pos: "filter (\<lambda>k. duplicated [] ?keys ! k) [0..<?n] = spec_duplicate_positions flds t"
    unfolding spec_duplicate_positions_def
  proof (rule filter_cong [OF refl])
    fix k assume "k \<in> set [0..<?n]"
    then have k: "k < ?n" by simp
    then have "duplicated [] ?keys ! k = (\<exists>j<k. ?keys ! j = ?keys ! k)"
      by (simp add: duplicated_nth)
    also have "\<dots> = (\<exists>j<k. same_on flds (snd (rows t ! j)) (snd (rows t ! k)))"
      using k assms(2) by (auto simp: row_key_eq case_prod_unfold)
    also have "\<dots> = list_ex (\<lambda>j. same_on flds (snd (rows t ! j)) (snd (rows t ! k))) [0..<k]"
      by (auto simp: list_ex_iff)
    finally show "duplicated [] ?keys ! k =
        list_ex (\<lambda>j. same_on flds (snd (rows t ! j)) (snd (rows t ! k))) [0..<k]" .
  qed
  have "map fst (loc (rows t) (duplicated [] ?keys)) =
        map (\<lambda>k. fst (rows t ! k)) (spec_duplicate_positions flds t)"
    by (simp add: loc_nth length_duplicated pos comp_def)
  with dup sel show ?thesis
    by (simp add: NonUniqueTogetherError_to_dict_def bind_exn_def form_response_def)
qed

text \<open>C7. For a table and a non-empty list of its column names,
  \<^verbatim>\<open>NonUniqueTogetherError(fields).to_dict\<close> reports exactly the index labels at the
  positions of the rows that equal an earlier row on every listed field, the first
  occurrence of each combination excluded, in row order, with the extra key
  \<^verbatim>\<open>unique_together_fields\<close>; for the rows \<^verbatim>\<open>(a=1,b=2), (a=1,b=2), (a=1,b=3)\<close> and the
  fields \<^verbatim>\<open>[a, b]\<close> the indexes are \<^verbatim>\<open>[1]\<close>.\<close>

theorem NonUniqueTogetherError_reports_later_duplicates:
  "(flds \<noteq> [] \<and> set flds \<subseteq> set (columns t) \<longrightarrow>
      NonUniqueTogetherError_to_dict flds (Some (DataFrame t)) =
        Inr \<lparr> reason = Some ''NON_UNIQUE_TOGETHER'',
              indexes = map (\<lambda>k. fst (rows t ! k)) (spec_duplicate_positions flds t),
              extras = [(''unique_together_fields'', ListArg flds)] \<rparr>)
   \<and> NonUniqueTogetherError_to_dict [''a'', ''b'']
       (Some (DataFrame
          \<lparr> columns = [''a'', ''b''],
            rows = [(0::nat, (\<lambda>_. Null)(''a'' := Num 1, ''b'' := Num 2)),
                    (1, (\<lambda>_. Null)(''a'' := Num 1, ''b'' := Num 2)),
                    (2, (\<lambda>_. Null)(''a'' := Num 1, ''b'' := Num 3))] \<rparr>)) =
        Inr \<lparr> reason = Some ''NON_UNIQUE_TOGETHER'', indexes = [1],
              extras = [(''unique_together_fields'', ListArg [''a'', ''b''])] \<rparr>"
proof (intro conjI impI)
  assume "flds \<noteq> [] \<and> set flds \<subseteq> set (columns t)"
  then show "NonUniqueTogetherError_to_dict flds (Some (DataFrame t)) =
        Inr \<lparr> reason = Some ''NON_UNIQUE_TOGETHER'',
              indexes = map (\<lambda>k. fst (rows t ! k)) (spec_duplicate_positions flds t),
              extras = [(''unique_together_fields'', ListArg flds)] \<rparr>"
    by (intro NonUniqueTogetherError_on_table) simp_all
next
  show "NonUniqueTogetherError_to_dict [''a'', ''b'']
       (Some (DataFrame
          \<lparr> columns = [''a'', ''b''],
            rows = [(0::nat, (\<lambda>_. Null)(''a'' := Num 1, ''b'' := Num 2)),
                    (1, (\<lambda>_. Null)(''a'' := Num 1, ''b'' := Num 2)),
                    (2, (\<lambda>_. Null)(''a'' := Num 1, ''b'' := Num 3))] \<rparr>)) =
        Inr \<lparr> reason = Some ''NON_UNIQUE_TOGETHER'', indexes = [1],
              extras = [(''unique_together_fields'', ListArg [''a'', ''b''])] \<rparr>"
    by (simp add: NonUniqueTogetherError_to_dict_def DataFrame_duplicated_def getitem_def
        bind_exn_def form_response_def loc_def row_key_def)
qed

theorem NonUniqueTogetherError_reports_later_duplicates_witness:
  "NonUniqueTogetherError_to_dict [''a'', ''b'']
     (Some (DataFrame
        \<lparr> columns = [''a'', ''b'', ''c''],
          rows = [(10::nat, (\<lambda>_. Null)(''a'' := Num 1, ''b'' := Num 2, ''c'' := Str ''x'')),
                  (11, (\<lambda>_. Null)(''a'' := Bool True, ''b'' := Num 2, ''c'' := Str ''y'')),
                  (12, (\<lambda>_. Null)(''a'' := Num 1, ''b'' := Num 3)),
                  (13, (\<lambda>_. Null)(''b'' := Num 3)),
                  (14, (\<lambda>_. Null)(''b'' := Num 3, ''c'' := Str ''z''))] \<rparr>)) =
     Inr \<lparr> reason = Some ''NON_UNIQUE_TOGETHER'', indexes = [11, 14],
           extras = [(''unique_together_fields'', ListArg [''a'', ''b''])] \<rparr>"
  using NonUniqueTogetherError_reports_later_duplicates
    [where flds = "[''a'', ''b'']" and t =
      "\<lparr> columns = [''a'', ''b'', ''c''],
          rows = [(10::nat, (\<lambda>_. Null)(''a'' := Num 1, ''b'' := Num 2, ''c'' := Str ''x'')),
                  (11, (\<lambda>_. Null)(''a'' := Bool True, ''b'' := Num 2, ''c'' := Str ''y'')),
                  (12, (\<lambda>_. Null)(''a'' := Num 1, ''b'' := Num 3)),
                  (13, (\<lambda>_. Null)(''b'' := Num 3)),
                  (14, (\<lambda>_. Null)(''b'' := Num 3, ''c'' := Str ''z''))] \<rparr>"]
  by (simp add: spec_duplicate_positions_def same_on_def upt_rec)


end
